theory Spec2Isabelle
  imports Main
begin

section \<open>Python values used by \<open>lib/model.py\<close>\<close>

text \<open>
  The exceptions that the code of \<open>lib/model.py\<close> can raise by itself: a missing dictionary
  key, an index out of range, a modulus or division by zero, and a keyword argument given
  twice in a call. Exceptions raised inside the external collaborators (data loader, scene
  parser, checkpointer, evaluation) are outside this development.
\<close>

datatype py_error = KeyError | IndexError | ZeroDivisionError | TypeError

text \<open>
  A Python \<open>dict\<close> is an association list in insertion order with pairwise distinct keys.
  \<open>d[k] = v\<close> overwrites the value of an existing key in place and appends a new key.
\<close>

type_synonym ('k, 'v) dict = "('k \<times> 'v) list"

definition dict_wf :: "('k, 'v) dict \<Rightarrow> bool" where
  "dict_wf d = distinct (map fst d)"

definition dict_keys :: "('k, 'v) dict \<Rightarrow> 'k list" where
  "dict_keys d = map fst d"

definition dict_values :: "('k, 'v) dict \<Rightarrow> 'v list" where
  "dict_values d = map snd d"

definition dict_get :: "('k, 'v) dict \<Rightarrow> 'k \<Rightarrow> 'v option" where
  "dict_get d k = map_of d k"

fun dict_setitem :: "('k, 'v) dict \<Rightarrow> 'k \<Rightarrow> 'v \<Rightarrow> ('k, 'v) dict" where
  "dict_setitem [] k v = [(k, v)]"
| "dict_setitem ((k', v') # d) k v =
     (if k' = k then (k, v) # d else (k', v') # dict_setitem d k v)"

text \<open>\<open>d.update(p)\<close>: the items of \<open>p\<close> are stored into \<open>d\<close> one after the other.\<close>

definition dict_update :: "('k, 'v) dict \<Rightarrow> ('k, 'v) dict \<Rightarrow> ('k, 'v) dict" where
  "dict_update d p = fold (\<lambda>(k, v) acc. dict_setitem acc k v) p d"

text \<open>\<open>d[k]\<close> raises \<open>KeyError\<close> on a missing key.\<close>

definition dict_getitem :: "('k, 'v) dict \<Rightarrow> 'k \<Rightarrow> py_error + 'v" where
  "dict_getitem d k = (case dict_get d k of None \<Rightarrow> Inl KeyError | Some v \<Rightarrow> Inr v)"

text \<open>The list comprehension \<open>[d[i] for i in ks]\<close> stops at the first missing key.\<close>

fun getitems :: "('k, 'v) dict \<Rightarrow> 'k list \<Rightarrow> py_error + 'v list" where
  "getitems d [] = Inr []"
| "getitems d (k # ks) =
     (case dict_getitem d k of
        Inl e \<Rightarrow> Inl e
      | Inr v \<Rightarrow> (case getitems d ks of Inl e \<Rightarrow> Inl e | Inr vs \<Rightarrow> Inr (v # vs)))"

text \<open>\<open>xs[-1]\<close> raises \<open>IndexError\<close> on the empty list.\<close>

definition last_item :: "'a list \<Rightarrow> py_error + 'a" where
  "last_item xs = (if xs = [] then Inl IndexError else Inr (last xs))"

subsection \<open>Formatting integers\<close>

definition digit_char :: "nat \<Rightarrow> char" where
  "digit_char n = ''0123456789'' ! (n mod 10)"

fun str_nat :: "nat \<Rightarrow> string" where
  "str_nat n = (if n < 10 then [digit_char n] else str_nat (n div 10) @ [digit_char n])"

declare str_nat.simps [simp del]

text \<open>\<open>str(i)\<close>, which is also what \<open>"{}".format(i)\<close> prints.\<close>

definition str_int :: "int \<Rightarrow> string" where
  "str_int i = (if i < 0 then ''-'' @ str_nat (nat (- i)) else str_nat (nat i))"

text \<open>\<open>"{:07d}".format(i)\<close>: zero padding to seven characters, the sign included.\<close>

definition format_07d :: "int \<Rightarrow> string" where
  "format_07d i =
     (let sign = (if i < 0 then ''-'' else '''');
          ds = str_nat (nat \<bar>i\<bar>)
      in sign @ replicate (7 - length sign - length ds) CHR ''0'' @ ds)"

section \<open>Gathering the predictions of all processes\<close>

text \<open>
  The effects of \<open>test\<close> and of the methods it calls, in the order in which they happen.
  A JPEG file is recorded with the image tensor and the prediction it is rendered from,
  a serialized file with the value it holds (\<open>None\<close> or a list of predictions).
\<close>

datatype ('im, 'p) test_event =
    LogInfo string
  | LogWarning string
  | LogTotalRunTime
  | LogInferenceTime
  | SetEvalMode
  | TimerTic
  | CudaSynchronize
  | TimerToc
  | Synchronize
  | Mkdir string
  | ImWrite string 'im 'p
  | TorchSave string "'p list option"
  | Evaluate "'p list option" string

definition not_contiguous_warning :: string where
  "not_contiguous_warning =
     ''Number of images that were gathered from multiple processes is not '' @
     ''a contiguous set. Some images might be missing from the evaluation''"

text \<open>The loop \<open>for p in all_predictions: predictions.update(p)\<close> on the empty dict.\<close>

definition merge_predictions :: "(int, 'p) dict list \<Rightarrow> (int, 'p) dict" where
  "merge_predictions all_predictions = fold (\<lambda>p predictions. dict_update predictions p) all_predictions []"

text \<open>
  \<open>_accumulate_predictions_from_multiple_gpus\<close>. The external \<open>all_gather\<close> is a parameter:
  it maps the dict of this process to the list of the dicts of all processes; so is the
  answer of \<open>is_main_process()\<close>. The result is the events, and the exception raised or
  the value returned (\<open>None\<close> on a process that is not the main one).
\<close>

definition accumulate_predictions_from_multiple_gpus ::
  "((int, 'p) dict \<Rightarrow> (int, 'p) dict list) \<Rightarrow> bool \<Rightarrow> (int, 'p) dict
     \<Rightarrow> ('im, 'p) test_event list \<times> (py_error + 'p list option)" where
  "accumulate_predictions_from_multiple_gpus all_gather is_main_process predictions_per_gpu =
     (let all_predictions = all_gather predictions_per_gpu in
      if \<not> is_main_process then ([], Inr None)
      else
        let predictions = merge_predictions all_predictions;
            image_ids = sort (dict_keys predictions)
        in (case last_item image_ids of
              Inl e \<Rightarrow> ([], Inl e)
            | Inr last_id \<Rightarrow>
                (let evs = (if int (length image_ids) \<noteq> last_id + 1
                            then [LogWarning not_contiguous_warning] else [])
                 in (case getitems predictions image_ids of
                       Inl e \<Rightarrow> (evs, Inl e)
                     | Inr ps \<Rightarrow> (evs, Inr (Some ps))))))"

text \<open>
  An instance of the external \<open>all_gather\<close>: the processes of lower rank hold the dicts
  \<open>lower\<close>, those of higher rank the dicts \<open>higher\<close>, and every process receives the list
  of all dicts in rank order.
\<close>

definition all_gather_of ::
  "(int, 'p) dict list \<Rightarrow> (int, 'p) dict list \<Rightarrow> (int, 'p) dict \<Rightarrow> (int, 'p) dict list" where
  "all_gather_of lower higher predictions_per_gpu = lower @ [predictions_per_gpu] @ higher"

text \<open>The set of the image ids that occur as a key in some gathered dict.\<close>

definition gathered_keys :: "(int, 'p) dict list \<Rightarrow> int set" where
  "gathered_keys all_predictions = (\<Union>d\<in>set all_predictions. set (dict_keys d))"

section \<open>The model object and its construction\<close>

text \<open>
  \<open>cfg\<close>: of the configuration, \<open>train\<close> reads \<open>cfg.SOLVER.CHECKPOINT_PERIOD\<close>.
\<close>

record config =
  CHECKPOINT_PERIOD :: int

text \<open>
  A data loader, as this file uses it: \<open>len(loader)\<close>, the batches that iterating over it
  yields, and \<open>len(loader.dataset)\<close>. A batch is \<open>(imgs, targets, image_ids)\<close>; \<open>imgs\<close> is
  the list \<open>imgs.tensors\<close>. The three are independent here: the loaders are built outside
  this file.
\<close>

record ('im, 'tg) data_loader =
  loader_len :: nat
  loader_batches :: "('im list \<times> 'tg list \<times> int list) list"
  dataset_len :: nat

text \<open>
  Dict objects live in a heap and are named by references, so that two names of one dict
  can be told from a dict and its copy. \<open>next_ref\<close> is the first reference not yet in use.
\<close>

type_synonym ref = nat

record heap =
  cells :: "ref \<Rightarrow> (string, int) dict"
  next_ref :: ref

text \<open>\<open>d.copy()\<close>: a new dict object with the items of \<open>d\<close>.\<close>

definition dict_copy :: "heap \<Rightarrow> ref \<Rightarrow> heap \<times> ref" where
  "dict_copy h d =
     (h\<lparr>cells := (cells h)(next_ref h := cells h d), next_ref := Suc (next_ref h)\<rparr>, next_ref h)"

text \<open>\<open>d.update(p)\<close> on the dict object \<open>d\<close>.\<close>

definition heap_dict_update :: "heap \<Rightarrow> ref \<Rightarrow> (string, int) dict \<Rightarrow> heap" where
  "heap_dict_update h d p = h\<lparr>cells := (cells h)(d := dict_update (cells h d) p)\<rparr>"

text \<open>
  The fields of a \<open>SceneGraphGeneration\<close> object that the methods read. The scene parser is
  one object with two modes: in training mode it maps images and targets to a dict of
  losses, in evaluation mode it maps images to a list of predictions.
\<close>

record ('im, 'tg, 'l, 'p) SceneGraphGeneration =
  cfg :: config
  arguments :: ref
  data_loader_train :: "('im, 'tg) data_loader"
  data_loader_test :: "('im, 'tg) data_loader"
  scene_parser_train :: "'im list \<Rightarrow> 'tg list \<Rightarrow> (string, 'l) dict"
  scene_parser_eval :: "'im list \<Rightarrow> 'p list"
  extra_checkpoint_data :: "(string, int) dict"

text \<open>
  What the external builders \<open>build_data_loader\<close>, \<open>build_scene_parser\<close> and
  \<open>build_scene_parser_optimizer\<close> return. They are called with \<open>cfg\<close>, \<open>local_rank\<close> and
  \<open>distributed\<close>, never with \<open>arguments\<close>.
\<close>

record ('im, 'tg, 'l, 'p) built =
  built_data_loader_train :: "('im, 'tg) data_loader"
  built_data_loader_test :: "('im, 'tg) data_loader"
  built_scene_parser_train :: "'im list \<Rightarrow> 'tg list \<Rightarrow> (string, 'l) dict"
  built_scene_parser_eval :: "'im list \<Rightarrow> 'p list"
  built_extra_checkpoint_data :: "(string, int) dict"

text \<open>\<open>SceneGraphGeneration.__init__\<close>; \<open>arguments\<close> is the reference the caller passes.\<close>

definition SceneGraphGeneration_init ::
  "('im, 'tg, 'l, 'p) built \<Rightarrow> config \<Rightarrow> ref \<Rightarrow> heap
     \<Rightarrow> heap \<times> ('im, 'tg, 'l, 'p) SceneGraphGeneration" where
  "SceneGraphGeneration_init ext cfg0 arguments0 h =
     (let (h1, self_arguments) = dict_copy h arguments0;
          self = \<lparr>cfg = cfg0, arguments = self_arguments,
                  data_loader_train = built_data_loader_train ext,
                  data_loader_test = built_data_loader_test ext,
                  scene_parser_train = built_scene_parser_train ext,
                  scene_parser_eval = built_scene_parser_eval ext,
                  extra_checkpoint_data = built_extra_checkpoint_data ext\<rparr>;
          h2 = heap_dict_update h1 (arguments self) (extra_checkpoint_data self)
      in (h2, self))"

definition build_model ::
  "('im, 'tg, 'l, 'p) built \<Rightarrow> config \<Rightarrow> ref \<Rightarrow> heap
     \<Rightarrow> heap \<times> ('im, 'tg, 'l, 'p) SceneGraphGeneration" where
  "build_model ext cfg0 arguments0 h = SceneGraphGeneration_init ext cfg0 arguments0 h"

section \<open>Training\<close>

text \<open>
  The effects of \<open>train\<close>. \<open>MetersUpdate\<close> carries the keyword arguments of
  \<open>meters.update(loss=..., **loss_dict_reduced)\<close>, \<open>CheckpointSave\<close> the name and the keyword
  arguments of \<open>sp_checkpointer.save\<close>. Times are not part of the model:
  \<open>meters.update(time=..., data=...)\<close> is the event \<open>MetersUpdateTime\<close>, and the progress line
  is recorded with its iteration and \<open>max_iter\<close> only.
\<close>

datatype 'l train_event =
    LogStartTraining
  | SetTrainMode
  | SchedulerStep
  | MetersUpdate "(string, 'l) dict"
  | OptimizerZeroGrad
  | Backward 'l
  | OptimizerStep
  | MetersUpdateTime
  | LogProgress int int
  | CheckpointSave string "(string, int) dict"

text \<open>\<open>"checkpoint_{:07d}".format(i)\<close>, the name of the periodic checkpoint of iteration \<open>i\<close>.\<close>

definition checkpoint_name :: "int \<Rightarrow> string" where
  "checkpoint_name i = ''checkpoint_'' @ format_07d i"

text \<open>\<open>sum(xs)\<close>: the elements are added to \<open>0\<close> from left to right.\<close>

definition py_sum :: "'l::{zero, plus} list \<Rightarrow> 'l" where
  "py_sum xs = foldl (+) 0 xs"

text \<open>
  One pass through the body of the loop of \<open>train\<close>, for the index \<open>i\<close> and the batch
  \<open>data\<close>: the events, the dict \<open>self.arguments\<close> afterwards, and the exception raised, if
  any. A loss named \<open>loss\<close> makes the call of \<open>meters.update\<close> a \<open>TypeError\<close> (a keyword
  argument given twice); a zero \<open>CHECKPOINT_PERIOD\<close> makes the modulus a
  \<open>ZeroDivisionError\<close>.
\<close>

definition train_iteration ::
  "config \<Rightarrow> ('im list \<Rightarrow> 'tg list \<Rightarrow> (string, 'l::{zero, plus}) dict) \<Rightarrow> int
     \<Rightarrow> (string, int) dict \<Rightarrow> int \<Rightarrow> ('im list \<times> 'tg list \<times> int list)
     \<Rightarrow> 'l train_event list \<times> (string, int) dict \<times> py_error option" where
  "train_iteration cfg0 scene_parser max_iter args i data =
     (let args1 = dict_setitem args ''iteration'' i;
          (imgs, targets, _) = data;
          loss_dict = scene_parser imgs targets;
          losses = py_sum (dict_values loss_dict);
          loss_dict_reduced = loss_dict;
          losses_reduced = py_sum (dict_values loss_dict_reduced)
      in if ''loss'' \<in> set (dict_keys loss_dict_reduced)
         then ([SchedulerStep], args1, Some TypeError)
         else
           (let evs = [SchedulerStep,
                       MetersUpdate ((''loss'', losses_reduced) # loss_dict_reduced),
                       OptimizerZeroGrad, Backward losses, OptimizerStep, MetersUpdateTime]
                      @ (if i mod 20 = 0 \<or> i = max_iter then [LogProgress i max_iter] else [])
            in if CHECKPOINT_PERIOD cfg0 = 0
               then (evs, args1, Some ZeroDivisionError)
               else (evs
                     @ (if (i + 1) mod CHECKPOINT_PERIOD cfg0 = 0
                        then [CheckpointSave (checkpoint_name i) args1] else [])
                     @ (if i + 1 = max_iter
                        then [CheckpointSave ''checkpoint_final'' args1] else []),
                     args1, None)))"

text \<open>
  \<open>for i, data in enumerate(self.data_loader_train, start_iter)\<close>: the index of the first
  batch is \<open>start_iter\<close>, and an exception ends the loop.
\<close>

fun train_loop ::
  "config \<Rightarrow> ('im list \<Rightarrow> 'tg list \<Rightarrow> (string, 'l::{zero, plus}) dict) \<Rightarrow> int
     \<Rightarrow> (string, int) dict \<Rightarrow> int \<Rightarrow> ('im list \<times> 'tg list \<times> int list) list
     \<Rightarrow> 'l train_event list \<times> (string, int) dict \<times> py_error option" where
  "train_loop cfg0 scene_parser max_iter args i [] = ([], args, None)"
| "train_loop cfg0 scene_parser max_iter args i (data # rest) =
     (case train_iteration cfg0 scene_parser max_iter args i data of
        (evs, args1, Some e) \<Rightarrow> (evs, args1, Some e)
      | (evs, args1, None) \<Rightarrow>
          (case train_loop cfg0 scene_parser max_iter args1 (i + 1) rest of
             (evs', args2, r) \<Rightarrow> (evs @ evs', args2, r)))"

text \<open>
  \<open>train\<close>: the events, the heap afterwards and the exception raised, if any.
  \<open>self.arguments["iteration"]\<close> raises \<open>KeyError\<close> when the key is missing.
\<close>

definition train ::
  "('im, 'tg, 'l::{zero, plus}, 'p) SceneGraphGeneration \<Rightarrow> heap
     \<Rightarrow> 'l train_event list \<times> heap \<times> py_error option" where
  "train self h =
     (case dict_getitem (cells h (arguments self)) ''iteration'' of
        Inl e \<Rightarrow> ([], h, Some e)
      | Inr start_iter \<Rightarrow>
          (let max_iter = int (loader_len (data_loader_train self))
           in (case train_loop (cfg self) (scene_parser_train self) max_iter
                      (cells h (arguments self)) start_iter
                      (loader_batches (data_loader_train self)) of
                 (evs, args1, r) \<Rightarrow>
                   ([LogStartTraining, SetTrainMode] @ evs,
                    h\<lparr>cells := (cells h)(arguments self := args1)\<rparr>, r))))"

definition train_events ::
  "('im, 'tg, 'l::{zero, plus}, 'p) SceneGraphGeneration \<Rightarrow> heap \<Rightarrow> 'l train_event list" where
  "train_events self h = fst (train self h)"

definition train_error ::
  "('im, 'tg, 'l::{zero, plus}, 'p) SceneGraphGeneration \<Rightarrow> heap \<Rightarrow> py_error option" where
  "train_error self h = snd (snd (train self h))"

subsection \<open>What a run of \<open>train\<close> does\<close>

text \<open>The checkpoints saved, in order: the name and the \<open>iteration\<close> passed with it.\<close>

fun checkpoints_saved :: "'l train_event list \<Rightarrow> (string \<times> int option) list" where
  "checkpoints_saved [] = []"
| "checkpoints_saved (CheckpointSave name kwargs # evs) =
     (name, dict_get kwargs ''iteration'') # checkpoints_saved evs"
| "checkpoints_saved (_ # evs) = checkpoints_saved evs"



text \<open>
  The number of passes through the body of the loop that end without an exception: the
  iterations that the run completes are \<open>start_iter, ..., start_iter + n - 1\<close> for this \<open>n\<close>.
\<close>

fun iterations_completed ::
  "config \<Rightarrow> ('im list \<Rightarrow> 'tg list \<Rightarrow> (string, 'l::{zero, plus}) dict) \<Rightarrow> int
     \<Rightarrow> (string, int) dict \<Rightarrow> int \<Rightarrow> ('im list \<times> 'tg list \<times> int list) list \<Rightarrow> nat" where
  "iterations_completed cfg0 scene_parser max_iter args i [] = 0"
| "iterations_completed cfg0 scene_parser max_iter args i (data # rest) =
     (case train_iteration cfg0 scene_parser max_iter args i data of
        (evs, args1, Some e) \<Rightarrow> 0
      | (evs, args1, None) \<Rightarrow>
          Suc (iterations_completed cfg0 scene_parser max_iter args1 (i + 1) rest))"

definition train_iterations_completed ::
  "('im, 'tg, 'l::{zero, plus}, 'p) SceneGraphGeneration \<Rightarrow> heap \<Rightarrow> nat" where
  "train_iterations_completed self h =
     (case dict_get (cells h (arguments self)) ''iteration'' of
        None \<Rightarrow> 0
      | Some start_iter \<Rightarrow>
          iterations_completed (cfg self) (scene_parser_train self)
            (int (loader_len (data_loader_train self))) (cells h (arguments self)) start_iter
            (loader_batches (data_loader_train self)))"

text \<open>
  For the proofs, the parts of a pass through the body of the loop: its events before the
  two checkpoint tests, the checkpoints it saves when it raises nothing, and the losses it
  logs and backpropagates.
\<close>

definition iteration_events ::
  "('im list \<Rightarrow> 'tg list \<Rightarrow> (string, 'l::{zero, plus}) dict) \<Rightarrow> int \<Rightarrow> int
     \<Rightarrow> ('im list \<times> 'tg list \<times> int list) \<Rightarrow> 'l train_event list" where
  "iteration_events sp max_iter i data =
     [SchedulerStep,
      MetersUpdate ((''loss'', py_sum (dict_values (sp (fst data) (fst (snd data)))))
                    # sp (fst data) (fst (snd data))),
      OptimizerZeroGrad, Backward (py_sum (dict_values (sp (fst data) (fst (snd data))))),
      OptimizerStep, MetersUpdateTime]
     @ (if i mod 20 = 0 \<or> i = max_iter then [LogProgress i max_iter] else [])"

definition iteration_checkpoints :: "config \<Rightarrow> int \<Rightarrow> int \<Rightarrow> (string \<times> int option) list" where
  "iteration_checkpoints cfg0 max_iter i =
     (if (i + 1) mod CHECKPOINT_PERIOD cfg0 = 0 then [(checkpoint_name i, Some i)] else [])
     @ (if i + 1 = max_iter then [(''checkpoint_final'', Some i)] else [])"


section \<open>Testing\<close>

text \<open>The file system: the paths that exist.\<close>

type_synonym filesystem = "string list"

definition os_path_exists :: "filesystem \<Rightarrow> string \<Rightarrow> bool" where
  "os_path_exists fs path = (path \<in> set fs)"

definition os_path_join :: "string \<Rightarrow> string \<Rightarrow> string" where
  "os_path_join a b =
     (if b \<noteq> [] \<and> hd b = CHR ''/'' then b
      else if a = [] \<or> last a = CHR ''/'' then a @ b
      else a @ ''/'' @ b)"

text \<open>A file written or a directory made exists afterwards.\<close>

definition fs_create :: "filesystem \<Rightarrow> string \<Rightarrow> filesystem" where
  "fs_create fs path = (if path \<in> set fs then fs else fs @ [path])"

text \<open>
  \<open>os.path.join(visualize_folder, "detection_{}.jpg".format(img_id))\<close> and
  \<open>os.path.join(output_folder, "predictions.pth")\<close>.
\<close>

definition detection_path :: "int \<Rightarrow> string" where
  "detection_path img_id = os_path_join ''visualize'' (''detection_'' @ str_int img_id @ ''.jpg'')"

definition predictions_path :: string where
  "predictions_path = os_path_join ''results'' ''predictions.pth''"

text \<open>
  The loop of \<open>visualize_detection\<close> from the index \<open>i\<close>: \<open>imgs.tensors[i]\<close> and \<open>img_ids[i]\<close>
  raise \<open>IndexError\<close> past the end. \<open>cv2.imwrite\<close> is taken to write its file.
\<close>

fun visualize_loop ::
  "int list \<Rightarrow> 'im list \<Rightarrow> nat \<Rightarrow> 'p list \<Rightarrow> filesystem
     \<Rightarrow> ('im, 'p) test_event list \<times> filesystem \<times> py_error option" where
  "visualize_loop img_ids imgs i [] fs = ([], fs, None)"
| "visualize_loop img_ids imgs i (prediction # rest) fs =
     (if length imgs \<le> i then ([], fs, Some IndexError)
      else if length img_ids \<le> i then ([], fs, Some IndexError)
      else
        (let path = detection_path (img_ids ! i)
         in (case visualize_loop img_ids imgs (Suc i) rest (fs_create fs path) of
               (evs, fs1, r) \<Rightarrow> (ImWrite path (imgs ! i) prediction # evs, fs1, r))))"

definition visualize_detection ::
  "int list \<Rightarrow> 'im list \<Rightarrow> 'p list \<Rightarrow> filesystem
     \<Rightarrow> ('im, 'p) test_event list \<times> filesystem \<times> py_error option" where
  "visualize_detection img_ids imgs predictions fs =
     (let visualize_folder = ''visualize'';
          (evs0, fs0) = (if \<not> os_path_exists fs visualize_folder
                         then ([Mkdir visualize_folder], fs_create fs visualize_folder)
                         else ([], fs))
      in (case visualize_loop img_ids imgs 0 predictions fs0 of
            (evs, fs1, r) \<Rightarrow> (evs0 @ evs, fs1, r)))"

text \<open>
  The progress line of every tenth batch and the timer calls around the scene parser, for
  the batch of index \<open>i\<close>; \<open>timer\<close> tells whether a timer was passed.
\<close>

definition batch_head_events :: "nat \<Rightarrow> bool \<Rightarrow> nat \<Rightarrow> ('im, 'p) test_event list" where
  "batch_head_events n_batches timer i =
     (if i mod 10 = 0
      then [LogInfo (''inference on batch '' @ str_int (int i) @ ''/''
                     @ str_int (int n_batches) @ ''...'')]
      else [])
     @ (if timer then [TimerTic, CudaSynchronize, TimerToc] else [])"

text \<open>
  The loop of \<open>test\<close> from the batch index \<open>i\<close>, with the dict \<open>results_dict\<close> built so far.
\<close>

fun inference_loop ::
  "('im list \<Rightarrow> 'p list) \<Rightarrow> nat \<Rightarrow> bool \<Rightarrow> bool \<Rightarrow> nat
     \<Rightarrow> ('im list \<times> 'tg list \<times> int list) list \<Rightarrow> (int, 'p) dict \<Rightarrow> filesystem
     \<Rightarrow> ('im, 'p) test_event list \<times> filesystem \<times> (int, 'p) dict \<times> py_error option" where
  "inference_loop scene_parser n_batches timer visualize i [] results_dict fs =
     ([], fs, results_dict, None)"
| "inference_loop scene_parser n_batches timer visualize i (data # rest) results_dict fs =
     (let (imgs, targets, image_ids) = data;
          evs_head = batch_head_events n_batches timer i;
          output = scene_parser imgs
      in (case (if visualize then visualize_detection image_ids imgs output fs
                else ([], fs, None)) of
            (evs_vis, fs1, Some e) \<Rightarrow> (evs_head @ evs_vis, fs1, results_dict, Some e)
          | (evs_vis, fs1, None) \<Rightarrow>
              (case inference_loop scene_parser n_batches timer visualize (Suc i) rest
                      (dict_update results_dict (dict_update [] (zip image_ids output))) fs1 of
                 (evs, fs2, results_dict2, r) \<Rightarrow>
                   (evs_head @ evs_vis @ evs, fs2, results_dict2, r))))"

text \<open>
  \<open>test\<close>. Parameters besides the object: the answer of \<open>is_main_process()\<close>, the external
  \<open>all_gather\<close> and \<open>evaluate\<close>, whether a timer was passed, \<open>visualize\<close>, and the file
  system. The two timing lines divide a time (a Python float) by \<open>len(dataset)\<close>, which
  raises \<open>ZeroDivisionError\<close> for an empty dataset. The result is the events, the file system
  afterwards, and the exception raised or the value returned (\<open>None\<close>, or what \<open>evaluate\<close>
  returns).
\<close>

definition test ::
  "('im, 'tg, 'l, 'p) SceneGraphGeneration \<Rightarrow> bool
     \<Rightarrow> ((int, 'p) dict \<Rightarrow> (int, 'p) dict list) \<Rightarrow> ('p list option \<Rightarrow> 'r)
     \<Rightarrow> bool \<Rightarrow> bool \<Rightarrow> filesystem
     \<Rightarrow> ('im, 'p) test_event list \<times> filesystem \<times> (py_error + 'r option)" where
  "test self is_main_process all_gather evaluate timer visualize fs =
     (let loader = data_loader_test self
      in (case inference_loop (scene_parser_eval self) (loader_len loader) timer visualize 0
                 (loader_batches loader) [] fs of
            (evs1, fs1, results_dict, Some e) \<Rightarrow>
              ([LogInfo ''Start evaluating'', SetEvalMode] @ evs1, fs1, Inl e)
          | (evs1, fs1, results_dict, None) \<Rightarrow>
              (let evs2 = [LogInfo ''Start evaluating'', SetEvalMode] @ evs1 @ [Synchronize]
               in if dataset_len loader = 0 then (evs2, fs1, Inl ZeroDivisionError)
                  else
                    (let evs3 = evs2 @ [LogTotalRunTime, LogInferenceTime]
                     in (case accumulate_predictions_from_multiple_gpus all_gather
                                is_main_process results_dict of
                           (evs_acc, Inl e) \<Rightarrow> (evs3 @ evs_acc, fs1, Inl e)
                         | (evs_acc, Inr predictions) \<Rightarrow>
                             if \<not> is_main_process then (evs3 @ evs_acc, fs1, Inr None)
                             else
                               (let output_folder = ''results'';
                                    (evs_dir, fs2) =
                                      (if \<not> os_path_exists fs1 output_folder
                                       then ([Mkdir output_folder], fs_create fs1 output_folder)
                                       else ([], fs1));
                                    path = predictions_path
                                in (evs3 @ evs_acc @ evs_dir
                                      @ [TorchSave path predictions,
                                         Evaluate predictions output_folder],
                                    fs_create fs2 path,
                                    Inr (Some (evaluate predictions)))))))))"

definition test_events ::
  "('im, 'tg, 'l, 'p) SceneGraphGeneration \<Rightarrow> bool
     \<Rightarrow> ((int, 'p) dict \<Rightarrow> (int, 'p) dict list) \<Rightarrow> ('p list option \<Rightarrow> 'r)
     \<Rightarrow> bool \<Rightarrow> bool \<Rightarrow> filesystem \<Rightarrow> ('im, 'p) test_event list" where
  "test_events self is_main_process all_gather evaluate timer visualize fs =
     fst (test self is_main_process all_gather evaluate timer visualize fs)"

definition test_filesystem ::
  "('im, 'tg, 'l, 'p) SceneGraphGeneration \<Rightarrow> bool
     \<Rightarrow> ((int, 'p) dict \<Rightarrow> (int, 'p) dict list) \<Rightarrow> ('p list option \<Rightarrow> 'r)
     \<Rightarrow> bool \<Rightarrow> bool \<Rightarrow> filesystem \<Rightarrow> filesystem" where
  "test_filesystem self is_main_process all_gather evaluate timer visualize fs =
     fst (snd (test self is_main_process all_gather evaluate timer visualize fs))"

definition test_result ::
  "('im, 'tg, 'l, 'p) SceneGraphGeneration \<Rightarrow> bool
     \<Rightarrow> ((int, 'p) dict \<Rightarrow> (int, 'p) dict list) \<Rightarrow> ('p list option \<Rightarrow> 'r)
     \<Rightarrow> bool \<Rightarrow> bool \<Rightarrow> filesystem \<Rightarrow> py_error + 'r option" where
  "test_result self is_main_process all_gather evaluate timer visualize fs =
     snd (snd (test self is_main_process all_gather evaluate timer visualize fs))"

text \<open>The dict \<open>results_dict\<close> that the loop of \<open>test\<close> hands to the gathering.\<close>

definition test_results_dict ::
  "('im, 'tg, 'l, 'p) SceneGraphGeneration \<Rightarrow> bool \<Rightarrow> bool \<Rightarrow> filesystem \<Rightarrow> (int, 'p) dict" where
  "test_results_dict self timer visualize fs =
     fst (snd (snd (inference_loop (scene_parser_eval self) (loader_len (data_loader_test self))
                      timer visualize 0 (loader_batches (data_loader_test self)) [] fs)))"

text \<open>
  The effects on the results: making the folder \<open>results\<close>, serializing a file, calling
  \<open>evaluate\<close>. The effects of the visualization: making the folder \<open>visualize\<close>, writing an
  image.
\<close>

fun is_results_effect :: "('im, 'p) test_event \<Rightarrow> bool" where
  "is_results_effect (Mkdir path) = (path = ''results'')"
| "is_results_effect (TorchSave path predictions) = True"
| "is_results_effect (Evaluate predictions output_folder) = True"
| "is_results_effect _ = False"

fun is_visualize_effect :: "('im, 'p) test_event \<Rightarrow> bool" where
  "is_visualize_effect (Mkdir path) = (path = ''visualize'')"
| "is_visualize_effect (ImWrite path img prediction) = True"
| "is_visualize_effect _ = False"

text \<open>
  A batch has an image tensor and an image id for each prediction that the scene parser
  returns for it.
\<close>

definition batch_aligned ::
  "('im list \<Rightarrow> 'p list) \<Rightarrow> ('im list \<times> 'tg list \<times> int list) \<Rightarrow> bool" where
  "batch_aligned scene_parser data =
     (length (scene_parser (fst data)) \<le> length (fst data)
      \<and> length (scene_parser (fst data)) \<le> length (snd (snd data)))"

text \<open>The files serialized with \<open>torch.save\<close>, in order: the path and the value.\<close>

fun files_serialized :: "('im, 'p) test_event list \<Rightarrow> (string \<times> 'p list option) list" where
  "files_serialized [] = []"
| "files_serialized (TorchSave path predictions # evs) = (path, predictions) # files_serialized evs"
| "files_serialized (_ # evs) = files_serialized evs"

section \<open>A concrete model\<close>

text \<open>
  A small instance to run the methods on: images, targets and predictions are numbers, the
  loader of \<open>n\<close> batches holds two images per batch, and the scene parser returns two losses
  in training mode and one prediction per image in evaluation mode.
\<close>

definition demo_scene_parser_train :: "nat list \<Rightarrow> nat list \<Rightarrow> (string, int) dict" where
  "demo_scene_parser_train imgs targets =
     [(''loss_classifier'', int (sum_list imgs)), (''loss_box_reg'', int (sum_list targets))]"

definition demo_scene_parser_eval :: "nat list \<Rightarrow> nat list" where
  "demo_scene_parser_eval imgs = map (\<lambda>im. im + 100) imgs"

definition demo_loader :: "nat \<Rightarrow> (nat, nat) data_loader" where
  "demo_loader n =
     \<lparr>loader_len = n,
      loader_batches = map (\<lambda>k. ([k, k + 1], [k + 2, k + 3], [2 * int k, 2 * int k + 1])) [0..<n],
      dataset_len = 2 * n\<rparr>"

definition demo_built :: "nat \<Rightarrow> (string, int) dict \<Rightarrow> (nat, nat, int, nat) built" where
  "demo_built n extra =
     \<lparr>built_data_loader_train = demo_loader n,
      built_data_loader_test = demo_loader n,
      built_scene_parser_train = demo_scene_parser_train,
      built_scene_parser_eval = demo_scene_parser_eval,
      built_extra_checkpoint_data = extra\<rparr>"

definition demo_evaluate :: "nat list option \<Rightarrow> nat" where
  "demo_evaluate predictions = (case predictions of None \<Rightarrow> 0 | Some ps \<Rightarrow> length ps)"

definition demo_heap :: "int \<Rightarrow> heap" where
  "demo_heap start_iter = \<lparr>cells = (\<lambda>_. [])(0 := [(''iteration'', start_iter)]), next_ref = 1\<rparr>"

definition demo_model :: "nat \<Rightarrow> int \<Rightarrow> (nat, nat, int, nat) SceneGraphGeneration" where
  "demo_model n period =
     \<lparr>cfg = \<lparr>CHECKPOINT_PERIOD = period\<rparr>, arguments = 0,
      data_loader_train = demo_loader n, data_loader_test = demo_loader n,
      scene_parser_train = demo_scene_parser_train, scene_parser_eval = demo_scene_parser_eval,
      extra_checkpoint_data = []\<rparr>"

section \<open>Properties of dicts\<close>

lemma keys_setitem: "set (dict_keys (dict_setitem d k v)) = insert k (set (dict_keys d))"
  by (induction d k v rule: dict_setitem.induct) (auto simp: dict_keys_def)

lemma wf_setitem: "dict_wf d \<Longrightarrow> dict_wf (dict_setitem d k v)"
proof (induction d k v rule: dict_setitem.induct)
  case (1 k v)
  then show ?case by (simp add: dict_wf_def)
next
  case (2 k' v' d k v)
  have "fst ` set (dict_setitem d k v) = insert k (fst ` set d)"
    using keys_setitem [of d k v] by (simp add: dict_keys_def)
  with 2 show ?case by (auto simp: dict_wf_def)
qed

lemma get_setitem: "dict_get (dict_setitem d k v) k' = (if k' = k then Some v else dict_get d k')"
  by (induction d k v rule: dict_setitem.induct) (auto simp: dict_get_def)

lemma dict_update_Nil: "dict_update d [] = d"
  by (simp add: dict_update_def)

lemma dict_update_Cons: "dict_update d ((k, v) # p) = dict_update (dict_setitem d k v) p"
  by (simp add: dict_update_def)

lemma keys_update: "set (dict_keys (dict_update d p)) = set (dict_keys d) \<union> set (dict_keys p)"
proof (induction p arbitrary: d)
  case Nil
  then show ?case by (simp add: dict_update_Nil dict_keys_def)
next
  case (Cons a p)
  obtain k v where a: "a = (k, v)" by (cases a)
  have "set (dict_keys (dict_update (dict_setitem d k v) p))
          = insert k (set (dict_keys d)) \<union> set (dict_keys p)"
    by (simp add: Cons.IH keys_setitem)
  then show ?case unfolding a dict_update_Cons by (simp add: dict_keys_def)
qed

lemma wf_update: "dict_wf d \<Longrightarrow> dict_wf (dict_update d p)"
proof (induction p arbitrary: d)
  case Nil
  then show ?case by (simp add: dict_update_Nil)
next
  case (Cons a p)
  obtain k v where a: "a = (k, v)" by (cases a)
  show ?case unfolding a dict_update_Cons
    by (rule Cons.IH) (rule wf_setitem [OF Cons.prems])
qed

lemma get_update_notin:
  "k \<notin> set (dict_keys p) \<Longrightarrow> dict_get (dict_update d p) k = dict_get d k"
proof (induction p arbitrary: d)
  case Nil
  then show ?case by (simp add: dict_update_Nil)
next
  case (Cons a p)
  obtain k' v where a: "a = (k', v)" by (cases a)
  from Cons.prems have ne: "k \<noteq> k'" and nin: "k \<notin> set (dict_keys p)"
    by (auto simp: a dict_keys_def)
  show ?case unfolding a dict_update_Cons
    using Cons.IH [OF nin, of "dict_setitem d k' v"] ne by (simp add: get_setitem)
qed

lemma get_update_in:
  "dict_wf p \<Longrightarrow> k \<in> set (dict_keys p) \<Longrightarrow> dict_get (dict_update d p) k = dict_get p k"
proof (induction p arbitrary: d)
  case Nil
  then show ?case by (simp add: dict_keys_def)
next
  case (Cons a p)
  obtain k' v where a: "a = (k', v)" by (cases a)
  from Cons.prems have wf: "dict_wf p" and nin: "k' \<notin> set (dict_keys p)"
    by (auto simp: a dict_wf_def dict_keys_def)
  show ?case
  proof (cases "k = k'")
    case True
    have "dict_get (dict_update (dict_setitem d k' v) p) k' = Some v"
      using get_update_notin [OF nin, of "dict_setitem d k' v"] by (simp add: get_setitem)
    then show ?thesis unfolding a dict_update_Cons using True by (simp add: dict_get_def)
  next
    case False
    with Cons.prems have kin: "k \<in> set (dict_keys p)" by (auto simp: a dict_keys_def)
    show ?thesis unfolding a dict_update_Cons
      using Cons.IH [OF wf kin, of "dict_setitem d k' v"] False by (simp add: dict_get_def)
  qed
qed

lemma merge_snoc: "merge_predictions (ds @ [d]) = dict_update (merge_predictions ds) d"
  by (simp add: merge_predictions_def)

lemma wf_merge: "dict_wf (merge_predictions ds)"
proof (induction ds rule: rev_induct)
  case Nil
  then show ?case by (simp add: merge_predictions_def dict_wf_def)
next
  case (snoc d ds)
  then show ?case by (simp add: merge_snoc wf_update)
qed

lemma keys_merge: "set (dict_keys (merge_predictions ds)) = (\<Union>d\<in>set ds. set (dict_keys d))"
proof (induction ds rule: rev_induct)
  case Nil
  then show ?case by (simp add: merge_predictions_def dict_keys_def)
next
  case (snoc d ds)
  then show ?case by (auto simp: merge_snoc keys_update)
qed

lemma get_merge_append_notin:
  "\<forall>d\<in>set post. k \<notin> set (dict_keys d) \<Longrightarrow>
     dict_get (merge_predictions (ds @ post)) k = dict_get (merge_predictions ds) k"
proof (induction post rule: rev_induct)
  case Nil
  then show ?case by simp
next
  case (snoc d post)
  then have "k \<notin> set (dict_keys d)" and "\<forall>d\<in>set post. k \<notin> set (dict_keys d)" by auto
  then show ?case using snoc.IH merge_snoc [of "ds @ post" d]
    by (simp add: get_update_notin)
qed

lemma getitems_ok:
  "set ks \<subseteq> set (dict_keys d) \<Longrightarrow> getitems d ks = Inr (map (\<lambda>k. the (dict_get d k)) ks)"
proof (induction ks)
  case Nil
  then show ?case by simp
next
  case (Cons k ks)
  then have "k \<in> fst ` set d" by (auto simp: dict_keys_def)
  then obtain v where "map_of d k = Some v"
    by (metis domD dom_map_of_conv_image_fst)
  with Cons show ?case by (simp add: dict_getitem_def dict_get_def)
qed

section \<open>Properties of the gathering\<close>

lemma contiguous_iff:
  fixes K :: "int set"
  assumes fin: "finite K" and ne: "K \<noteq> {}" and nonneg: "\<forall>k\<in>K. 0 \<le> k"
  shows "int (card K) = Max K + 1 \<longleftrightarrow> K = {0..<int (card K)}"
proof
  assume eq: "int (card K) = Max K + 1"
  have sub: "K \<subseteq> {0..Max K}"
  proof
    fix k assume "k \<in> K"
    then show "k \<in> {0..Max K}" using Max_ge [OF fin, of k] nonneg by simp
  qed
  have "Max K \<in> K" using fin ne by (rule Max_in)
  then have "0 \<le> Max K" using nonneg by blast
  then have "card {0..Max K} = card K" using eq by simp
  then have "K = {0..Max K}" using sub by (simp add: card_subset_eq)
  moreover have "{0..Max K} = {0..<Max K + 1}" by (rule set_eqI) simp
  ultimately show "K = {0..<int (card K)}" using eq by simp
next
  assume eq: "K = {0..<int (card K)}"
  have pos: "0 < int (card K)" using fin ne by (simp add: card_gt_0_iff)
  have "Max {0..<int (card K)} = int (card K) - 1"
  proof (rule Max_eqI)
    show "finite {0..<int (card K)}" by simp
    show "int (card K) - 1 \<in> {0..<int (card K)}" using pos by simp
    fix y assume "y \<in> {0..<int (card K)}"
    then show "y \<le> int (card K) - 1" by simp
  qed
  then show "int (card K) = Max K + 1" using eq by simp
qed

lemma last_sorted_ge: "sorted xs \<Longrightarrow> x \<in> set xs \<Longrightarrow> x \<le> last (xs :: int list)"
  by (induction xs) auto

lemma last_sort_Max: "xs \<noteq> [] \<Longrightarrow> last (sort xs) = Max (set (xs :: int list))"
proof -
  assume ne: "xs \<noteq> []"
  have ne': "sort xs \<noteq> []" using ne by (metis length_sort length_0_conv)
  have a: "last (sort xs) \<in> set xs" using last_in_set [OF ne'] by simp
  have b: "\<And>x. x \<in> set xs \<Longrightarrow> x \<le> last (sort xs)"
    using last_sorted_ge [of "sort xs"] by simp
  show ?thesis using a b by (intro Max_eqI [symmetric]) auto
qed

lemma accumulate_main_nonempty:
  assumes ne: "gathered_keys (all_gather p) \<noteq> {}"
  shows "accumulate_predictions_from_multiple_gpus all_gather True p =
           ((if int (card (gathered_keys (all_gather p))) \<noteq> Max (gathered_keys (all_gather p)) + 1
             then [LogWarning not_contiguous_warning] else []),
            Inr (Some (map (\<lambda>k. the (dict_get (merge_predictions (all_gather p)) k))
                           (sort (dict_keys (merge_predictions (all_gather p)))))))"
proof -
  let ?m = "merge_predictions (all_gather p)"
  let ?ids = "sort (dict_keys ?m)"
  have K: "set (dict_keys ?m) = gathered_keys (all_gather p)"
    by (simp add: keys_merge gathered_keys_def)
  have kne: "dict_keys ?m \<noteq> []" using ne K by auto
  then have idne: "?ids \<noteq> []" by (metis length_sort length_0_conv)
  have li: "last_item ?ids = Inr (Max (gathered_keys (all_gather p)))"
    using idne last_sort_Max [OF kne] K by (simp add: last_item_def)
  have "distinct (dict_keys ?m)" using wf_merge [of "all_gather p"]
    by (simp add: dict_wf_def dict_keys_def)
  then have len: "length (dict_keys ?m) = card (gathered_keys (all_gather p))"
    using K distinct_card [of "dict_keys ?m"] by simp
  have gi: "getitems ?m ?ids = Inr (map (\<lambda>k. the (dict_get ?m k)) ?ids)"
    by (rule getitems_ok) simp
  show ?thesis
    by (simp add: accumulate_predictions_from_multiple_gpus_def Let_def li len gi)
qed

lemma finite_gathered_keys: "finite (gathered_keys ds)"
  by (simp add: gathered_keys_def)

lemma accumulate_events_warning:
  fixes evs :: "('im, 'p) test_event list"
  assumes "accumulate_predictions_from_multiple_gpus all_gather is_main p = (evs, res)"
  shows "evs = [] \<or> evs = [LogWarning not_contiguous_warning]"
  using assms
  by (auto simp: accumulate_predictions_from_multiple_gpus_def Let_def
        split: sum.splits if_splits)

section \<open>The contiguity warning\<close>

text \<open>
  Claim C1, as amended. On the main process with at least one gathered image id,
  \<open>_accumulate_predictions_from_multiple_gpus\<close> raises nothing and returns the merged
  predictions in increasing order of their ids; it logs the warning exactly when the number
  of distinct ids differs from the largest id plus one. When no id is negative, that is
  exactly when the set of ids is not the range \<open>0, ..., N - 1\<close> for \<open>N\<close> the number of
  distinct ids.
\<close>

theorem accumulate_warning_iff_not_contiguous:
  assumes "gathered_keys (all_gather p) \<noteq> {}"
  shows "accumulate_predictions_from_multiple_gpus all_gather True p =
           ((if int (card (gathered_keys (all_gather p))) \<noteq> Max (gathered_keys (all_gather p)) + 1
             then [LogWarning not_contiguous_warning] else []),
            Inr (Some (map (\<lambda>k. the (dict_get (merge_predictions (all_gather p)) k))
                           (sort (dict_keys (merge_predictions (all_gather p)))))))
         \<and> ((\<forall>k\<in>gathered_keys (all_gather p). 0 \<le> k) \<longrightarrow>
              (int (card (gathered_keys (all_gather p))) \<noteq> Max (gathered_keys (all_gather p)) + 1
                 \<longleftrightarrow> gathered_keys (all_gather p)
                        \<noteq> {0..<int (card (gathered_keys (all_gather p)))}))"
proof (intro conjI impI)
  show "accumulate_predictions_from_multiple_gpus all_gather True p =
           ((if int (card (gathered_keys (all_gather p))) \<noteq> Max (gathered_keys (all_gather p)) + 1
             then [LogWarning not_contiguous_warning] else []),
            Inr (Some (map (\<lambda>k. the (dict_get (merge_predictions (all_gather p)) k))
                           (sort (dict_keys (merge_predictions (all_gather p)))))))"
    by (rule accumulate_main_nonempty [of all_gather p, OF assms])
next
  assume nonneg: "\<forall>k\<in>gathered_keys (all_gather p). 0 \<le> k"
  show "int (card (gathered_keys (all_gather p))) \<noteq> Max (gathered_keys (all_gather p)) + 1
          \<longleftrightarrow> gathered_keys (all_gather p)
                 \<noteq> {0..<int (card (gathered_keys (all_gather p)))}"
    using contiguous_iff [OF finite_gathered_keys assms nonneg] by (rule arg_cong [of _ _ Not])
qed

theorem accumulate_warning_iff_not_contiguous_witness:
  "gathered_keys (all_gather_of [] [[(2, 12)]] [(0, 10::nat)]) = {0, 2}
   \<and> accumulate_predictions_from_multiple_gpus (all_gather_of [] [[(2, 12)]]) True [(0, 10::nat)]
       = ([LogWarning not_contiguous_warning :: (unit, nat) test_event], Inr (Some [10, 12]))
   \<and> gathered_keys (all_gather_of [] [[(2, 12)]] [(0, 10::nat)])
       \<noteq> {0..<int (card (gathered_keys (all_gather_of [] [[(2, 12)]] [(0, 10::nat)])))}"
proof -
  have K: "gathered_keys (all_gather_of [] [[(2, 12)]] [(0, 10::nat)]) = {0, 2}"
    by (auto simp: gathered_keys_def all_gather_of_def dict_keys_def)
  have m: "merge_predictions (all_gather_of [] [[(2, 12)]] [(0, 10::nat)]) = [(0, 10), (2, 12)]"
    by (simp add: merge_predictions_def all_gather_of_def dict_update_def)
  show ?thesis
    using accumulate_warning_iff_not_contiguous
            [of "all_gather_of [] [[(2, 12)]]" "[(0, 10::nat)]", where ?'b = unit]
    by (simp add: K m dict_keys_def dict_get_def)
qed

text \<open>
  Without the restriction to non-negative ids the equivalence fails: the ids \<open>-1\<close> and \<open>1\<close>
  are not the range \<open>0, 1\<close>, and no warning is logged, since there are two of them and the
  largest is \<open>1\<close>.
\<close>

theorem accumulate_warning_negative_key_counterexample:
  "gathered_keys (all_gather_of [] [[(1, 11)]] [(- 1, 10::nat)]) \<noteq> {}
   \<and> gathered_keys (all_gather_of [] [[(1, 11)]] [(- 1, 10::nat)])
       \<noteq> {0..<int (card (gathered_keys (all_gather_of [] [[(1, 11)]] [(- 1, 10::nat)])))}
   \<and> accumulate_predictions_from_multiple_gpus (all_gather_of [] [[(1, 11)]]) True [(- 1, 10::nat)]
       = ([] :: (unit, nat) test_event list, Inr (Some [10, 11]))"
proof -
  have K: "gathered_keys (all_gather_of [] [[(1, 11)]] [(- 1, 10::nat)]) = {- 1, 1}"
    by (auto simp: gathered_keys_def all_gather_of_def dict_keys_def)
  have a: "accumulate_predictions_from_multiple_gpus (all_gather_of [] [[(1, 11)]]) True [(- 1, 10::nat)]
       = ([] :: (unit, nat) test_event list, Inr (Some [10, 11]))"
    by code_simp
  have "(- 1 :: int) \<notin> {0..<int (card {- 1, 1 :: int})}" by simp
  then have "{- 1, 1 :: int} \<noteq> {0..<int (card {- 1, 1 :: int})}" by blast
  then show ?thesis using a by (simp only: K) simp
qed

section \<open>No gathered prediction\<close>

text \<open>
  Claim C8. When every gathered dict is empty, the merged dict is empty and, on the main
  process, \<open>_accumulate_predictions_from_multiple_gpus\<close> raises \<open>IndexError\<close> at
  \<open>image_ids[-1]\<close>: no warning is logged and no list is returned.
\<close>

theorem accumulate_empty_raises_IndexError:
  assumes "\<forall>d\<in>set (all_gather p). d = []"
  shows "merge_predictions (all_gather p) = []
         \<and> accumulate_predictions_from_multiple_gpus all_gather True p = ([], Inl IndexError)"
proof -
  have "set (dict_keys (merge_predictions (all_gather p)))
          = (\<Union>d\<in>set (all_gather p). set (dict_keys d))"
    by (rule keys_merge)
  also have "\<dots> = {}" using assms by (auto simp: dict_keys_def)
  finally have m: "merge_predictions (all_gather p) = []" by (simp add: dict_keys_def)
  then show ?thesis
    by (simp add: accumulate_predictions_from_multiple_gpus_def Let_def dict_keys_def last_item_def)
qed

theorem accumulate_empty_raises_IndexError_witness:
  "set (all_gather_of [[]] [[]] ([] :: (int, nat) dict)) = {[]}
   \<and> merge_predictions (all_gather_of [[]] [[]] ([] :: (int, nat) dict)) = []
   \<and> accumulate_predictions_from_multiple_gpus (all_gather_of [[]] [[]]) True ([] :: (int, nat) dict)
       = ([] :: (unit, nat) test_event list, Inl IndexError)"
  using accumulate_empty_raises_IndexError
          [of "all_gather_of [[]] [[]]" "[] :: (int, nat) dict", where ?'b = unit]
  by (simp add: all_gather_of_def)

section \<open>An image id gathered more than once\<close>

text \<open>
  Claim C10. An image id \<open>k\<close> of a gathered dict \<open>d\<close> that occurs in no later dict of the
  gathered list has, in the merged dict, the prediction that \<open>d\<close> gives it, whatever the
  earlier dicts hold for \<open>k\<close>; and \<open>k\<close> occurs once among the keys of the merged dict.
\<close>

theorem merge_keeps_latest_prediction:
  assumes "dict_wf d" and "k \<in> set (dict_keys d)"
    and "\<forall>d'\<in>set post. k \<notin> set (dict_keys d')"
  shows "dict_get (merge_predictions (pre @ d # post)) k = dict_get d k
         \<and> length (filter (\<lambda>k'. k' = k) (dict_keys (merge_predictions (pre @ d # post)))) = 1"
proof
  have "dict_get (merge_predictions ((pre @ [d]) @ post)) k = dict_get (merge_predictions (pre @ [d])) k"
    by (rule get_merge_append_notin [OF assms(3)])
  also have "\<dots> = dict_get d k"
    by (simp add: merge_snoc get_update_in [OF assms(1,2)])
  finally show "dict_get (merge_predictions (pre @ d # post)) k = dict_get d k" by simp
next
  let ?ks = "dict_keys (merge_predictions (pre @ d # post))"
  have "distinct ?ks" using wf_merge [of "pre @ d # post"] by (simp add: dict_wf_def dict_keys_def)
  moreover have "k \<in> set ?ks" using assms(2) by (simp add: keys_merge)
  ultimately show "length (filter (\<lambda>k'. k' = k) ?ks) = 1"
    by (simp add: distinct_length_filter)
qed

theorem merge_keeps_latest_prediction_witness:
  "dict_wf [(7, 20::nat), (3::int, 21)] \<and> 7 \<in> set (dict_keys [(7::int, 20::nat), (3, 21)])
   \<and> dict_get (merge_predictions ([[(7, 10)]] @ [(7, 20::nat), (3, 21)] # [[(4, 30)]])) 7 = Some 20
   \<and> dict_keys (merge_predictions ([[(7, 10)]] @ [(7, 20::nat), (3, 21)] # [[(4, 30)]])) = [7, 3, 4]"
  using merge_keeps_latest_prediction
          [of "[(7, 20::nat), (3, 21)]" 7 "[[(4, 30)]]" "[[(7, 10)]]"]
  by (simp add: dict_wf_def dict_keys_def dict_get_def merge_predictions_def dict_update_def)

section \<open>The construction of the model\<close>

text \<open>
  Claim C9. \<open>build_model\<close> is \<open>SceneGraphGeneration.__init__\<close>. It changes no dict object
  that exists when it is called, the caller's \<open>arguments\<close> among them: \<open>self.arguments\<close> is a
  new object that holds the caller's items updated with the extra checkpoint data.
\<close>

theorem constructor_keeps_callers_arguments:
  assumes "arguments0 < next_ref h"
  shows "build_model ext cfg0 arguments0 h = SceneGraphGeneration_init ext cfg0 arguments0 h
         \<and> cells (fst (build_model ext cfg0 arguments0 h)) arguments0 = cells h arguments0
         \<and> (\<forall>r<next_ref h. cells (fst (build_model ext cfg0 arguments0 h)) r = cells h r)
         \<and> arguments (snd (build_model ext cfg0 arguments0 h)) \<noteq> arguments0
         \<and> cells (fst (build_model ext cfg0 arguments0 h))
                   (arguments (snd (build_model ext cfg0 arguments0 h)))
             = dict_update (cells h arguments0) (built_extra_checkpoint_data ext)"
  using assms
  by (auto simp: build_model_def SceneGraphGeneration_init_def dict_copy_def
        heap_dict_update_def Let_def)

theorem constructor_keeps_callers_arguments_witness:
  "(0::nat) < next_ref (demo_heap 3)
   \<and> cells (fst (build_model (demo_built 2 [(''iteration'', 7), (''epoch'', 1)])
                   \<lparr>CHECKPOINT_PERIOD = 5\<rparr> 0 (demo_heap 3))) 0 = [(''iteration'', 3)]
   \<and> arguments (snd (build_model (demo_built 2 [(''iteration'', 7), (''epoch'', 1)])
                   \<lparr>CHECKPOINT_PERIOD = 5\<rparr> 0 (demo_heap 3))) = 1
   \<and> cells (fst (build_model (demo_built 2 [(''iteration'', 7), (''epoch'', 1)])
                   \<lparr>CHECKPOINT_PERIOD = 5\<rparr> 0 (demo_heap 3))) 1
       = [(''iteration'', 7), (''epoch'', 1)]"
proof -
  let ?B = "build_model (demo_built 2 [(''iteration'', 7), (''epoch'', 1)])
              \<lparr>CHECKPOINT_PERIOD = 5\<rparr> 0 (demo_heap 3)"
  have n: "(0::nat) < next_ref (demo_heap 3)" by (simp add: demo_heap_def)
  have a: "arguments (snd ?B) = 1"
    by (simp add: build_model_def SceneGraphGeneration_init_def dict_copy_def Let_def demo_heap_def)
  have d: "dict_update (cells (demo_heap 3) 0)
             (built_extra_checkpoint_data (demo_built 2 [(''iteration'', 7), (''epoch'', 1)]))
           = [(''iteration'', 7), (''epoch'', 1)]"
    by (simp add: demo_heap_def demo_built_def dict_update_def)
  have c: "cells (demo_heap 3) 0 = [(''iteration'', 3)]" by (simp add: demo_heap_def)
  note t = constructor_keeps_callers_arguments
            [OF n, of "demo_built 2 [(''iteration'', 7), (''epoch'', 1)]" "\<lparr>CHECKPOINT_PERIOD = 5\<rparr>"]
  have g1: "cells (fst ?B) 0 = [(''iteration'', 3)]"
    using t [THEN conjunct2, THEN conjunct1] c by (simp only:)
  have "cells (fst ?B) (arguments (snd ?B)) = [(''iteration'', 7), (''epoch'', 1)]"
    using t [THEN conjunct2, THEN conjunct2, THEN conjunct2, THEN conjunct2] d by (simp only:)
  then have g2: "cells (fst ?B) 1 = [(''iteration'', 7), (''epoch'', 1)]"
    using a by (simp only:)
  from n g1 a g2 show ?thesis by (intro conjI)
qed

section \<open>Properties of the training loop\<close>

lemma train_iteration_TypeError:
  "''loss'' \<in> set (dict_keys (sp (fst data) (fst (snd data)))) \<Longrightarrow>
   train_iteration cfg0 sp max_iter args i data
     = ([SchedulerStep], dict_setitem args ''iteration'' i, Some TypeError)"
  by (cases data) (simp add: train_iteration_def Let_def)

lemma train_iteration_ZeroDivisionError:
  "''loss'' \<notin> set (dict_keys (sp (fst data) (fst (snd data)))) \<Longrightarrow>
   CHECKPOINT_PERIOD cfg0 = 0 \<Longrightarrow>
   train_iteration cfg0 sp max_iter args i data
     = (iteration_events sp max_iter i data, dict_setitem args ''iteration'' i,
        Some ZeroDivisionError)"
  by (cases data) (simp add: train_iteration_def Let_def iteration_events_def)

lemma train_iteration_ok:
  "''loss'' \<notin> set (dict_keys (sp (fst data) (fst (snd data)))) \<Longrightarrow>
   CHECKPOINT_PERIOD cfg0 \<noteq> 0 \<Longrightarrow>
   train_iteration cfg0 sp max_iter args i data
     = (iteration_events sp max_iter i data
        @ (if (i + 1) mod CHECKPOINT_PERIOD cfg0 = 0
           then [CheckpointSave (checkpoint_name i) (dict_setitem args ''iteration'' i)]
           else [])
        @ (if i + 1 = max_iter
           then [CheckpointSave ''checkpoint_final'' (dict_setitem args ''iteration'' i)] else []),
        dict_setitem args ''iteration'' i, None)"
  by (cases data) (simp add: train_iteration_def Let_def iteration_events_def)

lemma train_iteration_cases:
  obtains (TypeError) "train_iteration cfg0 sp max_iter args i data
                         = ([SchedulerStep], dict_setitem args ''iteration'' i, Some TypeError)"
  | (ZeroDivisionError) "train_iteration cfg0 sp max_iter args i data
       = (iteration_events sp max_iter i data, dict_setitem args ''iteration'' i,
          Some ZeroDivisionError)"
  | (ok) "''loss'' \<notin> set (dict_keys (sp (fst data) (fst (snd data))))"
         "CHECKPOINT_PERIOD cfg0 \<noteq> 0"
         "train_iteration cfg0 sp max_iter args i data
     = (iteration_events sp max_iter i data
        @ (if (i + 1) mod CHECKPOINT_PERIOD cfg0 = 0
           then [CheckpointSave (checkpoint_name i) (dict_setitem args ''iteration'' i)]
           else [])
        @ (if i + 1 = max_iter
           then [CheckpointSave ''checkpoint_final'' (dict_setitem args ''iteration'' i)] else []),
        dict_setitem args ''iteration'' i, None)"
  using train_iteration_TypeError [of sp data cfg0 max_iter args i]
    train_iteration_ZeroDivisionError [of sp data cfg0 max_iter args i]
    train_iteration_ok [of sp data cfg0 max_iter args i]
  by blast

lemma checkpoints_saved_append:
  "checkpoints_saved (xs @ ys) = checkpoints_saved xs @ checkpoints_saved ys"
  by (induction xs rule: checkpoints_saved.induct) simp_all


lemma checkpoints_saved_iteration_events:
  "checkpoints_saved (iteration_events sp max_iter i data) = []"
  by (simp add: iteration_events_def)


lemma train_iteration_error_checkpoints:
  assumes "train_iteration cfg0 sp max_iter args i data = (evs, args1, Some e)"
  shows "checkpoints_saved evs = []"
proof (cases rule: train_iteration_cases [of cfg0 sp max_iter args i data])
  case TypeError
  with assms show ?thesis by auto
next
  case ZeroDivisionError
  with assms show ?thesis by (auto simp: checkpoints_saved_iteration_events)
next
  case ok
  with assms show ?thesis by simp
qed

lemma train_iteration_ok_checkpoints:
  assumes "train_iteration cfg0 sp max_iter args i data = (evs, args1, None)"
  shows "checkpoints_saved evs = iteration_checkpoints cfg0 max_iter i"
proof (cases rule: train_iteration_cases [of cfg0 sp max_iter args i data])
  case TypeError
  with assms show ?thesis by simp
next
  case ZeroDivisionError
  with assms show ?thesis by simp
next
  case ok
  have "evs = iteration_events sp max_iter i data
        @ (if (i + 1) mod CHECKPOINT_PERIOD cfg0 = 0
           then [CheckpointSave (checkpoint_name i) (dict_setitem args ''iteration'' i)]
           else [])
        @ (if i + 1 = max_iter
           then [CheckpointSave ''checkpoint_final'' (dict_setitem args ''iteration'' i)] else [])"
    using assms ok(3) by simp
  then show ?thesis
    by (simp add: checkpoints_saved_append checkpoints_saved_iteration_events
          iteration_checkpoints_def get_setitem)
qed

lemma concat_map_upt_Suc:
  "concat (map f [0..<Suc n]) = f 0 @ concat (map (\<lambda>k. f (Suc k)) [0..<n])"
proof -
  have "[0..<Suc n] = 0 # map Suc [0..<n]" by (simp add: upt_conv_Cons map_Suc_upt del: upt_Suc)
  then show ?thesis by (simp add: comp_def del: upt_Suc)
qed

lemma iterations_completed_le:
  "iterations_completed cfg0 sp max_iter args i bs \<le> length bs"
proof (induction bs arbitrary: args i)
  case Nil
  then show ?case by simp
next
  case (Cons b bs)
  obtain evs args1 r where it: "train_iteration cfg0 sp max_iter args i b = (evs, args1, r)"
    by (cases "train_iteration cfg0 sp max_iter args i b") auto
  show ?case using Cons.IH [of args1 "i + 1"] it by (cases r) simp_all
qed

lemma iterations_completed_all:
  "snd (snd (train_loop cfg0 sp max_iter args i bs)) = None \<Longrightarrow>
     iterations_completed cfg0 sp max_iter args i bs = length bs"
proof (induction bs arbitrary: args i)
  case Nil
  then show ?case by simp
next
  case (Cons b bs)
  obtain evs args1 r where it: "train_iteration cfg0 sp max_iter args i b = (evs, args1, r)"
    by (cases "train_iteration cfg0 sp max_iter args i b") auto
  show ?case
  proof (cases r)
    case (Some e)
    with it Cons.prems show ?thesis by simp
  next
    case None
    obtain evs' args2 r' where rest:
      "train_loop cfg0 sp max_iter args1 (i + 1) bs = (evs', args2, r')"
      by (cases "train_loop cfg0 sp max_iter args1 (i + 1) bs") auto
    have "r' = None" using Cons.prems it None rest by simp
    then have "iterations_completed cfg0 sp max_iter args1 (i + 1) bs = length bs"
      using Cons.IH [of args1 "i + 1"] rest by simp
    then show ?thesis using it None by simp
  qed
qed

lemma train_loop_checkpoints:
  "checkpoints_saved (fst (train_loop cfg0 sp max_iter args i bs))
     = concat (map (\<lambda>k. iteration_checkpoints cfg0 max_iter (i + int k))
                   [0..<iterations_completed cfg0 sp max_iter args i bs])"
proof (induction bs arbitrary: args i)
  case Nil
  then show ?case by simp
next
  case (Cons b bs)
  obtain evs args1 r where it: "train_iteration cfg0 sp max_iter args i b = (evs, args1, r)"
    by (cases "train_iteration cfg0 sp max_iter args i b") auto
  show ?case
  proof (cases r)
    case (Some e)
    with it have "checkpoints_saved evs = []" by (simp add: train_iteration_error_checkpoints)
    with it Some show ?thesis by simp
  next
    case None
    obtain evs' args2 r' where rest:
      "train_loop cfg0 sp max_iter args1 (i + 1) bs = (evs', args2, r')"
      by (cases "train_loop cfg0 sp max_iter args1 (i + 1) bs") auto
    have whole: "train_loop cfg0 sp max_iter args i (b # bs) = (evs @ evs', args2, r')"
      using it None rest by simp
    have cnt: "iterations_completed cfg0 sp max_iter args i (b # bs)
                 = Suc (iterations_completed cfg0 sp max_iter args1 (i + 1) bs)"
      using it None by simp
    have here: "checkpoints_saved evs = iteration_checkpoints cfg0 max_iter i"
      using it None by (simp add: train_iteration_ok_checkpoints)
    have there: "checkpoints_saved evs'
                 = concat (map (\<lambda>k. iteration_checkpoints cfg0 max_iter (i + 1 + int k))
                     [0..<iterations_completed cfg0 sp max_iter args1 (i + 1) bs])"
      using Cons.IH [of args1 "i + 1"] rest by simp
    have shift: "\<And>k. i + int (Suc k) = i + 1 + int k" by simp
    show ?thesis
      unfolding whole cnt concat_map_upt_Suc shift fst_conv checkpoints_saved_append here there
      by simp
  qed
qed




lemma train_unfold:
  assumes "dict_get (cells h (arguments self)) ''iteration'' = Some start_iter"
  shows "train_events self h
           = [LogStartTraining, SetTrainMode]
             @ fst (train_loop (cfg self) (scene_parser_train self)
                      (int (loader_len (data_loader_train self)))
                      (cells h (arguments self)) start_iter
                      (loader_batches (data_loader_train self)))"
    and "train_error self h
           = snd (snd (train_loop (cfg self) (scene_parser_train self)
                      (int (loader_len (data_loader_train self)))
                      (cells h (arguments self)) start_iter
                      (loader_batches (data_loader_train self))))"
    and "train_iterations_completed self h
           = iterations_completed (cfg self) (scene_parser_train self)
               (int (loader_len (data_loader_train self))) (cells h (arguments self)) start_iter
               (loader_batches (data_loader_train self))"
  using assms
  by (simp_all add: train_events_def train_error_def train_def dict_getitem_def Let_def
        train_iterations_completed_def split: prod.splits)

lemma last_str_nat: "last (str_nat n) = digit_char n"
  by (subst str_nat.simps) simp

lemma str_nat_nonempty: "str_nat n \<noteq> []"
  by (subst str_nat.simps) simp

lemma digit_char_digit: "digit_char n \<in> set ''0123456789''"
proof -
  have "n mod 10 < length ''0123456789''" by simp
  then show ?thesis unfolding digit_char_def by (rule nth_mem)
qed

lemma format_07d_not_final: "format_07d i \<noteq> ''final''"
proof
  assume "format_07d i = ''final''"
  then have "last (format_07d i) = CHR ''l''" by simp
  moreover have "last (format_07d i) = digit_char (nat \<bar>i\<bar>)"
    by (simp add: format_07d_def Let_def str_nat_nonempty last_str_nat)
  ultimately show False using digit_char_digit [of "nat \<bar>i\<bar>"] by simp
qed


lemma iteration_checkpoints_final:
  "(''checkpoint_final'', Some i) \<in> set (iteration_checkpoints cfg0 max_iter j)
     \<longleftrightarrow> j = i \<and> i + 1 = max_iter"
  using format_07d_not_final [of j]
  by (auto simp: iteration_checkpoints_def checkpoint_name_def)

lemma index_in_range:
  "(\<exists>k<n. start_iter + int k = i \<and> P) \<longleftrightarrow> start_iter \<le> i \<and> i < start_iter + int n \<and> P"
proof
  assume "\<exists>k<n. start_iter + int k = i \<and> P"
  then show "start_iter \<le> i \<and> i < start_iter + int n \<and> P" by auto
next
  assume a: "start_iter \<le> i \<and> i < start_iter + int n \<and> P"
  then have "nat (i - start_iter) < n" and "start_iter + int (nat (i - start_iter)) = i"
    by auto
  with a show "\<exists>k<n. start_iter + int k = i \<and> P" by blast
qed


section \<open>The loss of an iteration\<close>



section \<open>The checkpoint cadence\<close>



section \<open>The final checkpoint of a resumed run\<close>

text \<open>
  Claim C2 fails on the code. With \<open>arguments["iteration"] = 1\<close> and a loader of two batches
  the loop runs the iterations 1 and 2; \<open>checkpoint_final\<close> is saved in iteration 1, where
  \<open>i + 1 = max_iter\<close>, and the last iteration, 2, saves nothing after its optimizer step.
\<close>

theorem train_resumed_saves_final_checkpoint_too_early:
  "train_events (demo_model 2 5) (demo_heap 1) =
     [LogStartTraining, SetTrainMode,
      SchedulerStep,
      MetersUpdate [(''loss'', 6), (''loss_classifier'', 1), (''loss_box_reg'', 5)],
      OptimizerZeroGrad, Backward 6, OptimizerStep, MetersUpdateTime,
      CheckpointSave ''checkpoint_final'' [(''iteration'', 1)],
      SchedulerStep,
      MetersUpdate [(''loss'', 10), (''loss_classifier'', 3), (''loss_box_reg'', 7)],
      OptimizerZeroGrad, Backward 10, OptimizerStep, MetersUpdateTime,
      LogProgress 2 2]
   \<and> train_error (demo_model 2 5) (demo_heap 1) = None"
  by code_simp

text \<open>
  In general \<open>checkpoint_final\<close> is saved in the completed iteration \<open>i\<close> with
  \<open>i + 1 = len(data_loader_train)\<close>, wherever the run started.
\<close>

lemma final_checkpoint_iff:
  assumes "dict_get (cells h (arguments self)) ''iteration'' = Some start_iter"
  shows "(''checkpoint_final'', Some i) \<in> set (checkpoints_saved (train_events self h))
            \<longleftrightarrow> start_iter \<le> i \<and> i < start_iter + int (train_iterations_completed self h)
                \<and> i + 1 = int (loader_len (data_loader_train self))"
proof -
  have "(''checkpoint_final'', Some i) \<in> set (checkpoints_saved (train_events self h))
          \<longleftrightarrow> (\<exists>k<train_iterations_completed self h.
                 start_iter + int k = i \<and> i + 1 = int (loader_len (data_loader_train self)))"
    unfolding train_unfold [OF assms]
    by (auto simp: train_loop_checkpoints iteration_checkpoints_final)
  then show ?thesis unfolding index_in_range .
qed

section \<open>Properties of the visualization and of the inference loop\<close>


lemma predictions_path_eq: "predictions_path = ''results/predictions.pth''"
  by (simp add: os_path_join_def predictions_path_def)

lemma visualize_loop_Cons:
  assumes "i < length imgs" and "i < length img_ids"
    and "visualize_loop img_ids imgs (Suc i) ps (fs_create fs (detection_path (img_ids ! i)))
           = (evs, fs1, r)"
  shows "visualize_loop img_ids imgs i (p # ps) fs
           = (ImWrite (detection_path (img_ids ! i)) (imgs ! i) p # evs, fs1, r)"
  using assms by (simp add: Let_def)

lemma visualize_loop_no_results_effect:
  "filter is_results_effect (fst (visualize_loop img_ids imgs i predictions fs)) = []"
proof (induction predictions arbitrary: i fs)
  case Nil
  then show ?case by simp
next
  case (Cons p ps)
  let ?fs = "fs_create fs (detection_path (img_ids ! i))"
  obtain evs fs1 r where rest: "visualize_loop img_ids imgs (Suc i) ps ?fs = (evs, fs1, r)"
    by (cases "visualize_loop img_ids imgs (Suc i) ps ?fs") auto
  have ih: "filter is_results_effect evs = []" using Cons.IH [of "Suc i" ?fs] rest by simp
  show ?case
  proof (cases "i < length imgs \<and> i < length img_ids")
    case True
    then show ?thesis using visualize_loop_Cons [OF _ _ rest, of p] ih by simp
  next
    case False
    then show ?thesis by auto
  qed
qed

lemma visualize_loop_aligned:
  "i + length predictions \<le> length imgs \<Longrightarrow> i + length predictions \<le> length img_ids \<Longrightarrow>
     fst (visualize_loop img_ids imgs i predictions fs)
       = map (\<lambda>k. ImWrite (detection_path (img_ids ! (i + k))) (imgs ! (i + k)) (predictions ! k))
             [0..<length predictions]
     \<and> snd (snd (visualize_loop img_ids imgs i predictions fs)) = None"
proof (induction predictions arbitrary: i fs)
  case Nil
  then show ?case by simp
next
  case (Cons p ps)
  let ?fs = "fs_create fs (detection_path (img_ids ! i))"
  have ih: "fst (visualize_loop img_ids imgs (Suc i) ps ?fs)
       = map (\<lambda>k. ImWrite (detection_path (img_ids ! (Suc i + k))) (imgs ! (Suc i + k)) (ps ! k))
             [0..<length ps]
     \<and> snd (snd (visualize_loop img_ids imgs (Suc i) ps ?fs)) = None"
    using Cons.prems by (intro Cons.IH) simp_all
  have up: "[0..<length (p # ps)] = 0 # map Suc [0..<length ps]"
    by (simp add: upt_conv_Cons map_Suc_upt del: upt_Suc)
  obtain evs fs1 r where rest: "visualize_loop img_ids imgs (Suc i) ps ?fs = (evs, fs1, r)"
    by (cases "visualize_loop img_ids imgs (Suc i) ps ?fs") auto
  have step: "visualize_loop img_ids imgs i (p # ps) fs
              = (ImWrite (detection_path (img_ids ! i)) (imgs ! i) p # evs, fs1, r)"
    using Cons.prems by (intro visualize_loop_Cons [OF _ _ rest]) simp_all
  show ?case unfolding step up using ih rest by (simp add: comp_def)
qed

lemma visualize_detection_unfold:
  "fst (visualize_detection img_ids imgs predictions fs)
     = (if os_path_exists fs ''visualize'' then [] else [Mkdir ''visualize''])
       @ fst (visualize_loop img_ids imgs 0 predictions
                (if os_path_exists fs ''visualize'' then fs else fs_create fs ''visualize''))"
  "snd (snd (visualize_detection img_ids imgs predictions fs))
     = snd (snd (visualize_loop img_ids imgs 0 predictions
                (if os_path_exists fs ''visualize'' then fs else fs_create fs ''visualize'')))"
  by (simp_all add: visualize_detection_def Let_def split: prod.splits)

lemma visualize_detection_no_results_effect:
  "filter is_results_effect (fst (visualize_detection img_ids imgs predictions fs)) = []"
  unfolding visualize_detection_unfold
  by (simp add: visualize_loop_no_results_effect)

lemma visualize_detection_aligned:
  assumes "length predictions \<le> length imgs" and "length predictions \<le> length img_ids"
  shows "fst (visualize_detection img_ids imgs predictions fs)
           = (if os_path_exists fs ''visualize'' then [] else [Mkdir ''visualize''])
             @ map (\<lambda>k. ImWrite (detection_path (img_ids ! k)) (imgs ! k) (predictions ! k))
                   [0..<length predictions]"
    and "snd (snd (visualize_detection img_ids imgs predictions fs)) = None"
proof -
  have a: "\<And>fs0. fst (visualize_loop img_ids imgs 0 predictions fs0)
       = map (\<lambda>k. ImWrite (detection_path (img_ids ! k)) (imgs ! k) (predictions ! k))
             [0..<length predictions]
     \<and> snd (snd (visualize_loop img_ids imgs 0 predictions fs0)) = None"
    using visualize_loop_aligned [of 0 predictions imgs img_ids] assms by simp
  show "fst (visualize_detection img_ids imgs predictions fs)
           = (if os_path_exists fs ''visualize'' then [] else [Mkdir ''visualize''])
             @ map (\<lambda>k. ImWrite (detection_path (img_ids ! k)) (imgs ! k) (predictions ! k))
                   [0..<length predictions]"
    unfolding visualize_detection_unfold using a by simp
  show "snd (snd (visualize_detection img_ids imgs predictions fs)) = None"
    unfolding visualize_detection_unfold using a by simp
qed

lemma batch_head_events_no_effect:
  "filter is_results_effect (batch_head_events n timer i) = []"
  "filter is_visualize_effect (batch_head_events n timer i) = []"
  by (simp_all add: batch_head_events_def)

lemma inference_loop_Cons_error:
  assumes "(if visualize then visualize_detection (snd (snd data)) (fst data) (sp (fst data)) fs
            else ([], fs, None)) = (evs_vis, fs1, Some e)"
  shows "inference_loop sp n timer visualize i (data # rest) rd fs
           = (batch_head_events n timer i @ evs_vis, fs1, rd, Some e)"
proof -
  obtain imgs targets ids where d: "data = (imgs, targets, ids)" by (cases data) auto
  show ?thesis using assms unfolding d by (cases visualize) (simp_all add: Let_def)
qed

lemma inference_loop_Cons_ok:
  assumes "(if visualize then visualize_detection (snd (snd data)) (fst data) (sp (fst data)) fs
            else ([], fs, None)) = (evs_vis, fs1, None)"
    and "inference_loop sp n timer visualize (Suc i) rest
           (dict_update rd (dict_update [] (zip (snd (snd data)) (sp (fst data))))) fs1
         = (evs, fs2, rd2, r)"
  shows "inference_loop sp n timer visualize i (data # rest) rd fs
           = (batch_head_events n timer i @ evs_vis @ evs, fs2, rd2, r)"
proof -
  obtain imgs targets ids where d: "data = (imgs, targets, ids)" by (cases data) auto
  show ?thesis using assms unfolding d by (cases visualize) (simp_all add: Let_def)
qed

lemma inference_loop_no_results_effect:
  "filter is_results_effect (fst (inference_loop sp n timer visualize i bs rd fs)) = []"
proof (induction bs arbitrary: i rd fs)
  case Nil
  then show ?case by simp
next
  case (Cons b bs)
  let ?vis = "if visualize then visualize_detection (snd (snd b)) (fst b) (sp (fst b)) fs
              else ([], fs, None)"
  obtain evs_vis fs1 r where vis: "?vis = (evs_vis, fs1, r)" by (cases ?vis) auto
  have nv: "filter is_results_effect evs_vis = []"
    using vis visualize_detection_no_results_effect [of "snd (snd b)" "fst b" "sp (fst b)" fs]
    by (auto split: if_splits)
  show ?case
  proof (cases r)
    case (Some e)
    show ?thesis
      unfolding inference_loop_Cons_error [where sp = sp and data = b, OF vis [unfolded Some]]
      by (simp add: batch_head_events_no_effect nv)
  next
    case None
    let ?rd = "dict_update rd (dict_update [] (zip (snd (snd b)) (sp (fst b))))"
    obtain evs fs2 rd2 r2 where rest:
      "inference_loop sp n timer visualize (Suc i) bs ?rd fs1 = (evs, fs2, rd2, r2)"
      by (cases "inference_loop sp n timer visualize (Suc i) bs ?rd fs1") auto
    have ih: "filter is_results_effect evs = []" using Cons.IH [of "Suc i" ?rd fs1] rest by simp
    show ?thesis
      unfolding inference_loop_Cons_ok [where sp = sp and data = b, OF vis [unfolded None] rest]
      by (simp add: batch_head_events_no_effect nv ih)
  qed
qed


lemma inference_loop_no_error:
  assumes "visualize \<longrightarrow> (\<forall>data\<in>set bs. batch_aligned sp data)"
  shows "snd (snd (snd (inference_loop sp n timer visualize i bs rd fs))) = None"
  using assms
proof (induction bs arbitrary: i rd fs)
  case Nil
  then show ?case by simp
next
  case (Cons b bs)
  let ?vis = "if visualize then visualize_detection (snd (snd b)) (fst b) (sp (fst b)) fs
              else ([], fs, None)"
  obtain evs_vis fs1 r where vis: "?vis = (evs_vis, fs1, r)" by (cases ?vis) auto
  have "snd (snd ?vis) = None"
  proof (cases visualize)
    case True
    with Cons.prems have "batch_aligned sp b" by simp
    then show ?thesis using True
      by (simp add: batch_aligned_def visualize_detection_aligned(2))
  next
    case False
    then show ?thesis by simp
  qed
  with vis have r: "r = None" by simp
  let ?rd = "dict_update rd (dict_update [] (zip (snd (snd b)) (sp (fst b))))"
  obtain evs fs2 rd2 r2 where rest:
    "inference_loop sp n timer visualize (Suc i) bs ?rd fs1 = (evs, fs2, rd2, r2)"
    by (cases "inference_loop sp n timer visualize (Suc i) bs ?rd fs1") auto
  have "r2 = None" using Cons.IH [of "Suc i" ?rd fs1] Cons.prems rest by simp
  then show ?case
    unfolding inference_loop_Cons_ok [where sp = sp and data = b, OF vis [unfolded r] rest] by simp
qed

section \<open>Properties of the test run\<close>





lemma test_main_ok:
  assumes "inference_loop (scene_parser_eval self) (loader_len (data_loader_test self)) timer
             visualize 0 (loader_batches (data_loader_test self)) [] fs = (evs1, fs1, rd, None)"
    and "dataset_len (data_loader_test self) \<noteq> 0"
    and "accumulate_predictions_from_multiple_gpus all_gather True rd = (evs_acc, Inr predictions)"
  shows "test self True all_gather evaluate timer visualize fs
           = ([LogInfo ''Start evaluating'', SetEvalMode] @ evs1
              @ [Synchronize, LogTotalRunTime, LogInferenceTime] @ evs_acc
              @ (if os_path_exists fs1 ''results'' then [] else [Mkdir ''results''])
              @ [TorchSave predictions_path predictions, Evaluate predictions ''results''],
              fs_create (if os_path_exists fs1 ''results'' then fs1 else fs_create fs1 ''results'')
                predictions_path,
              Inr (Some (evaluate predictions)))"
  using assms by (simp add: test_def Let_def)

lemma files_serialized_append:
  "files_serialized (xs @ ys) = files_serialized xs @ files_serialized ys"
  by (induction xs rule: files_serialized.induct) simp_all

lemma files_serialized_no_results_effect:
  "filter is_results_effect evs = [] \<Longrightarrow> files_serialized evs = []"
  by (induction evs rule: files_serialized.induct) (simp_all split: if_splits)


lemma demo_aligned:
  "\<forall>data\<in>set (loader_batches (data_loader_test (demo_model n period))).
     batch_aligned (scene_parser_eval (demo_model n period)) data"
  by (simp add: demo_model_def demo_loader_def demo_scene_parser_eval_def batch_aligned_def)

lemma demo_dataset_len: "dataset_len (data_loader_test (demo_model n period)) = 2 * n"
  by (simp add: demo_model_def demo_loader_def)

section \<open>The serialized predictions\<close>

text \<open>
  Claim C3, as amended. On the main process, when the test dataset is not empty, the
  visualization (if asked for) finds an image and an id for every prediction, and at least
  one image id is gathered, \<open>test\<close> serializes one file, \<open>results/predictions.pth\<close>. It holds
  the predictions of the merged dict in increasing order of their ids, the ids of the merged
  dict are the ids of the gathered dicts, and the list has as many entries as there are
  distinct ids. \<open>test\<close> returns what \<open>evaluate\<close> returns for that list.
\<close>

theorem main_process_serializes_merged_predictions:
  fixes self :: "('im, 'tg, 'l, 'p) SceneGraphGeneration"
  assumes "dataset_len (data_loader_test self) \<noteq> 0"
    and "visualize \<longrightarrow> (\<forall>data\<in>set (loader_batches (data_loader_test self)).
                          batch_aligned (scene_parser_eval self) data)"
    and G: "G = all_gather (test_results_dict self timer visualize fs)"
    and "gathered_keys G \<noteq> {}"
    and L: "L = map (\<lambda>k. the (dict_get (merge_predictions G) k))
                    (sort (dict_keys (merge_predictions G)))"
  shows "files_serialized (test_events self True all_gather evaluate timer visualize fs)
           = [(''results/predictions.pth'', Some L)]
         \<and> set (dict_keys (merge_predictions G)) = gathered_keys G
         \<and> length L = card (gathered_keys G)
         \<and> os_path_exists (test_filesystem self True all_gather evaluate timer visualize fs)
              ''results/predictions.pth''
         \<and> test_result self True all_gather evaluate timer visualize fs
              = Inr (Some (evaluate (Some L)))"
proof -
  let ?loop = "inference_loop (scene_parser_eval self) (loader_len (data_loader_test self)) timer
                 visualize 0 (loader_batches (data_loader_test self)) [] fs"
  obtain evs1 fs1 rd r where loop: "?loop = (evs1, fs1, rd, r)" by (cases ?loop) auto
  have "snd (snd (snd ?loop)) = None" using assms(2) by (rule inference_loop_no_error)
  with loop have r: "r = None" by simp
  have rd: "rd = test_results_dict self timer visualize fs"
    using loop by (simp add: test_results_dict_def)
  have ne: "gathered_keys (all_gather rd) \<noteq> {}" using assms(4) G rd by simp
  obtain evs_acc :: "('im, 'p) test_event list" where acc:
    "accumulate_predictions_from_multiple_gpus all_gather True rd = (evs_acc, Inr (Some L))"
    using accumulate_main_nonempty [of all_gather rd, OF ne] L G rd by simp
  have w: "evs_acc = [] \<or> evs_acc = [LogWarning not_contiguous_warning]"
    using acc by (rule accumulate_events_warning)
  have s1: "files_serialized evs1 = []"
    using inference_loop_no_results_effect
            [of "scene_parser_eval self" "loader_len (data_loader_test self)" timer visualize 0
               "loader_batches (data_loader_test self)" "[]" fs] loop
    by (intro files_serialized_no_results_effect) simp
  have s2: "files_serialized evs_acc = []" using w by auto
  note t = test_main_ok [OF loop [unfolded r] assms(1) acc, of evaluate]
  have K: "set (dict_keys (merge_predictions G)) = gathered_keys G"
    by (simp add: keys_merge gathered_keys_def)
  have "distinct (dict_keys (merge_predictions G))"
    using wf_merge [of G] by (simp add: dict_wf_def dict_keys_def)
  then have len: "length L = card (gathered_keys G)"
    using K distinct_card [of "dict_keys (merge_predictions G)"] L by simp
  have a: "files_serialized (test_events self True all_gather evaluate timer visualize fs)
           = [(''results/predictions.pth'', Some L)]"
    unfolding test_events_def t
    by (simp add: files_serialized_append s1 s2 predictions_path_eq)
  have b: "os_path_exists (test_filesystem self True all_gather evaluate timer visualize fs)
              ''results/predictions.pth''"
    unfolding test_filesystem_def t
    by (simp add: os_path_exists_def fs_create_def predictions_path_eq)
  have c: "test_result self True all_gather evaluate timer visualize fs
              = Inr (Some (evaluate (Some L)))"
    unfolding test_result_def t by simp
  from a K len b c show ?thesis by (intro conjI)
qed

theorem main_process_serializes_merged_predictions_witness:
  "dataset_len (data_loader_test (demo_model 2 5)) = 4
   \<and> all_gather_of [] [[(3, 999), (4, 104)]] (test_results_dict (demo_model 2 5) True True [])
       = [[(0, 100), (1, 101), (2, 101), (3, 102)], [(3, 999), (4, 104)]]
   \<and> files_serialized (test_events (demo_model 2 5) True (all_gather_of [] [[(3, 999), (4, 104)]])
                          demo_evaluate True True [])
       = [(''results/predictions.pth'', Some [100, 101, 101, 999, 104])]
   \<and> test_result (demo_model 2 5) True (all_gather_of [] [[(3, 999), (4, 104)]])
        demo_evaluate True True [] = Inr (Some 5)"
proof -
  let ?G = "[[(0, 100), (1, 101), (2, 101), (3, 102)], [(3, 999), (4, 104::nat)]]"
  have d: "dataset_len (data_loader_test (demo_model 2 5)) \<noteq> 0" by (simp add: demo_dataset_len)
  have al: "True \<longrightarrow> (\<forall>data\<in>set (loader_batches (data_loader_test (demo_model 2 5))).
                        batch_aligned (scene_parser_eval (demo_model 2 5)) data)"
    using demo_aligned [of 2 5] by simp
  have G: "?G = all_gather_of [] [[(3, 999), (4, 104)]]
                  (test_results_dict (demo_model 2 5) True True [])"
    by code_simp
  have K: "gathered_keys ?G \<noteq> {}" by (simp add: gathered_keys_def dict_keys_def)
  have L: "[100, 101, 101, 999, 104]
           = map (\<lambda>k. the (dict_get (merge_predictions ?G) k))
                 (sort (dict_keys (merge_predictions ?G)))"
    by code_simp
  have e: "demo_evaluate (Some [100, 101, 101, 999, 104]) = 5" by (simp add: demo_evaluate_def)
  show ?thesis
    using main_process_serializes_merged_predictions
            [where self = "demo_model 2 5" and visualize = True and timer = True and fs = "[]"
               and all_gather = "all_gather_of [] [[(3, 999), (4, 104)]]"
               and evaluate = demo_evaluate, OF d al G K L]
      G [symmetric]
    by (simp add: demo_dataset_len e)
qed

text \<open>
  Without these conditions \<open>test\<close> serializes nothing on the main process: it raises
  \<open>IndexError\<close> in the gathering when the loader yields no batch, \<open>ZeroDivisionError\<close> in the
  timing line when the dataset is empty, and \<open>IndexError\<close> in the visualization of a batch
  with two predictions and one image id.
\<close>

theorem test_without_predictions_serializes_nothing_counterexample:
  "files_serialized
     (test_events ((demo_model 0 5)\<lparr>data_loader_test :=
                      \<lparr>loader_len = 0, loader_batches = [], dataset_len = 2\<rparr>\<rparr>)
        True (all_gather_of [] []) demo_evaluate False False []) = []
   \<and> test_result ((demo_model 0 5)\<lparr>data_loader_test :=
                      \<lparr>loader_len = 0, loader_batches = [], dataset_len = 2\<rparr>\<rparr>)
        True (all_gather_of [] []) demo_evaluate False False [] = Inl IndexError
   \<and> files_serialized
       (test_events (demo_model 0 5) True (all_gather_of [] []) demo_evaluate False False []) = []
   \<and> test_result (demo_model 0 5) True (all_gather_of [] []) demo_evaluate False False []
       = Inl ZeroDivisionError
   \<and> files_serialized
       (test_events ((demo_model 1 5)\<lparr>data_loader_test :=
                        \<lparr>loader_len = 1, loader_batches = [([0, 1], [], [0])], dataset_len = 2\<rparr>\<rparr>)
          True (all_gather_of [] []) demo_evaluate False True []) = []
   \<and> test_result ((demo_model 1 5)\<lparr>data_loader_test :=
                        \<lparr>loader_len = 1, loader_batches = [([0, 1], [], [0])], dataset_len = 2\<rparr>\<rparr>)
          True (all_gather_of [] []) demo_evaluate False True [] = Inl IndexError"
  by code_simp

section \<open>Processes other than the main one\<close>




section \<open>The visualization\<close>



end
